theory Spec2Isabelle
  imports Complex_Main "HOL-Library.Sublist"
begin

section \<open>Python values as decoded from JSON\<close>

text \<open>
  The reviewers' payloads are decoded by \<^verbatim>\<open>json.loads\<close> into Python values: \<^verbatim>\<open>None\<close>,
  booleans, integers, floats, strings, lists and dicts with string keys. A dict is an
  association list in insertion order, its keys pairwise distinct. A float is modelled
  by the rational it denotes: sums and quotients are exact, and NaN and the infinities
  are outside the model. Text is ASCII.
\<close>

datatype jval = JNull | JBool bool | JInt int | JFloat rat | JStr string
  | JArr "jval list" | JObj "(string \<times> jval) list"

datatype py_error = TypeError | AttributeError

text \<open>\<^verbatim>\<open>d.get(k, default)\<close> on a dict.\<close>

definition dict_get :: "(string \<times> jval) list \<Rightarrow> string \<Rightarrow> jval \<Rightarrow> jval" where
  "dict_get d k dflt = (case map_of d k of Some v \<Rightarrow> v | None \<Rightarrow> dflt)"

text \<open>\<^verbatim>\<open>x.get(k, default)\<close> on any value: only a dict has the method.\<close>

definition py_get :: "jval \<Rightarrow> string \<Rightarrow> jval \<Rightarrow> py_error + jval" where
  "py_get x k dflt = (case x of JObj d \<Rightarrow> Inr (dict_get d k dflt) | _ \<Rightarrow> Inl AttributeError)"

text \<open>The number a value stands for in arithmetic; \<^verbatim>\<open>bool\<close> is a subclass of \<^verbatim>\<open>int\<close>.\<close>

fun py_num :: "jval \<Rightarrow> rat option" where
  "py_num (JInt i) = Some (of_int i)"
| "py_num (JFloat r) = Some r"
| "py_num (JBool b) = Some (if b then 1 else 0)"
| "py_num _ = None"

text \<open>\<^verbatim>\<open>x == y\<close>: numbers by value, strings and lists structurally, dicts as mappings.\<close>

fun py_eq :: "jval \<Rightarrow> jval \<Rightarrow> bool" where
  "py_eq JNull JNull = True"
| "py_eq (JStr a) (JStr b) = (a = b)"
| "py_eq (JArr xs) (JArr ys) = list_all2 py_eq xs ys"
| "py_eq (JObj a) (JObj b) = (length a = length b \<and>
     (\<forall>(k, v) \<in> set a. case map_of b k of Some w \<Rightarrow> py_eq v w | None \<Rightarrow> False))"
| "py_eq x y = (case (py_num x, py_num y) of (Some a, Some b) \<Rightarrow> a = b | _ \<Rightarrow> False)"

text \<open>\<^verbatim>\<open>abs(x - y)\<close>: defined on numbers, a \<^verbatim>\<open>TypeError\<close> on anything else.\<close>

definition py_abs_diff :: "jval \<Rightarrow> jval \<Rightarrow> py_error + rat" where
  "py_abs_diff x y = (case (py_num x, py_num y) of
      (Some a, Some b) \<Rightarrow> Inr \<bar>a - b\<bar>
    | _ \<Rightarrow> Inl TypeError)"

text \<open>
  \<^verbatim>\<open>len(x)\<close> followed by \<^verbatim>\<open>for item in x\<close>: a list gives its elements, a string its
  characters, a dict its keys; every other value raises \<^verbatim>\<open>TypeError\<close>.
\<close>

fun py_iter :: "jval \<Rightarrow> py_error + jval list" where
  "py_iter (JArr xs) = Inr xs"
| "py_iter (JStr s) = Inr (map (\<lambda>c. JStr [c]) s)"
| "py_iter (JObj d) = Inr (map (\<lambda>kv. JStr (fst kv)) d)"
| "py_iter _ = Inl TypeError"

section \<open>Locality matching: \<^verbatim>\<open>find_consensus_issues\<close> (quick\_cross\_review\_and\_fix.py)\<close>

text \<open>One entry of the list \<^verbatim>\<open>consensus\<close>: the dict appended at lines 207--213, with
  its keys \<^verbatim>\<open>file\<close>, \<^verbatim>\<open>line\<close>, \<^verbatim>\<open>severity\<close>, \<^verbatim>\<open>gemini_issue\<close> and \<^verbatim>\<open>codex_issue\<close>.\<close>

record consensus_issue =
  ci_file :: jval
  ci_line :: jval
  ci_severity :: jval
  gemini_issue :: jval
  codex_issue :: jval

text \<open>The test of line 206, \<^verbatim>\<open>g_file == c_file and abs(g_line - c_line) <= 5\<close>;
  \<^verbatim>\<open>and\<close> does not evaluate the subtraction when the files differ.\<close>

definition same_problem :: "jval \<Rightarrow> jval \<Rightarrow> jval \<Rightarrow> jval \<Rightarrow> py_error + bool" where
  "same_problem g_file g_line c_file c_line =
     (if py_eq g_file c_file
      then (case py_abs_diff g_line c_line of Inl e \<Rightarrow> Inl e | Inr d \<Rightarrow> Inr (d \<le> 5))
      else Inr False)"

text \<open>The body of the inner loop for one \<^verbatim>\<open>c_issue\<close> (lines 202--206): read its file and
  line, then apply the test.\<close>

definition codex_test :: "jval \<Rightarrow> jval \<Rightarrow> jval \<Rightarrow> py_error + bool" where
  "codex_test g_file g_line c_issue =
     (case py_get c_issue ''file'' (JStr '''') of
        Inl e \<Rightarrow> Inl e
      | Inr c_file \<Rightarrow>
          (case py_get c_issue ''line'' (JInt 0) of
             Inl e \<Rightarrow> Inl e
           | Inr c_line \<Rightarrow> same_problem g_file g_line c_file c_line))"

text \<open>The inner loop over \<^verbatim>\<open>codex_issues\<close> (lines 201--214): it stops at the first
  issue that passes the test (\<^verbatim>\<open>break\<close>) and returns it.\<close>

fun codex_loop :: "jval \<Rightarrow> jval \<Rightarrow> jval list \<Rightarrow> py_error + jval option" where
  "codex_loop g_file g_line [] = Inr None"
| "codex_loop g_file g_line (c_issue # rest) =
     (case codex_test g_file g_line c_issue of
        Inl e \<Rightarrow> Inl e
      | Inr True \<Rightarrow> Inr (Some c_issue)
      | Inr False \<Rightarrow> codex_loop g_file g_line rest)"

text \<open>The three reads at the head of the outer loop (lines 197--199).\<close>

definition gemini_fields :: "jval \<Rightarrow> py_error + jval \<times> jval \<times> jval" where
  "gemini_fields g_issue =
     (case g_issue of
        JObj d \<Rightarrow> Inr (dict_get d ''file'' (JStr ''''), dict_get d ''line'' (JInt 0),
                      dict_get d ''severity'' (JStr ''''))
      | _ \<Rightarrow> Inl AttributeError)"

text \<open>The outer loop over \<^verbatim>\<open>gemini_issues\<close> (lines 196--214), the list \<^verbatim>\<open>consensus\<close>
  threaded through it.\<close>

fun gemini_loop :: "jval list \<Rightarrow> jval list \<Rightarrow> consensus_issue list
    \<Rightarrow> py_error + consensus_issue list" where
  "gemini_loop [] codex_issues consensus = Inr consensus"
| "gemini_loop (g_issue # rest) codex_issues consensus =
     (case gemini_fields g_issue of
        Inl e \<Rightarrow> Inl e
      | Inr (g_file, g_line, g_severity) \<Rightarrow>
          (case codex_loop g_file g_line codex_issues of
             Inl e \<Rightarrow> Inl e
           | Inr None \<Rightarrow> gemini_loop rest codex_issues consensus
           | Inr (Some c_issue) \<Rightarrow>
               gemini_loop rest codex_issues
                 (consensus @ [\<lparr>ci_file = g_file, ci_line = g_line, ci_severity = g_severity,
                                gemini_issue = g_issue, codex_issue = c_issue\<rparr>])))"

definition find_consensus_issues ::
    "(string \<times> jval) list \<Rightarrow> (string \<times> jval) list \<Rightarrow> py_error + consensus_issue list" where
  "find_consensus_issues gemini_data codex_data =
     (case py_iter (dict_get gemini_data ''top_issues'' (JArr [])) of
        Inl e \<Rightarrow> Inl e
      | Inr gemini_issues \<Rightarrow>
          (case py_iter (dict_get codex_data ''top_issues'' (JArr [])) of
             Inl e \<Rightarrow> Inl e
           | Inr codex_issues \<Rightarrow> gemini_loop gemini_issues codex_issues []))"



section \<open>Python string operations\<close>

text \<open>\<^verbatim>\<open>sub in s\<close> on strings: \<^verbatim>\<open>sub\<close> occurs in \<^verbatim>\<open>s\<close> as a contiguous substring.\<close>

fun py_in :: "string \<Rightarrow> string \<Rightarrow> bool" where
  "py_in sub [] = (sub = [])"
| "py_in sub (c # cs) = (prefix sub (c # cs) \<or> py_in sub cs)"

text \<open>\<^verbatim>\<open>s.find(sub)\<close> and \<^verbatim>\<open>s.find(sub, start)\<close>: the lowest index at which \<^verbatim>\<open>sub\<close>
  occurs, \<open>-1\<close> when there is none. \<open>find_from sub s i\<close> searches the rest \<open>s\<close> of the string
  that begins at index \<open>i\<close>.\<close>

fun find_from :: "string \<Rightarrow> string \<Rightarrow> nat \<Rightarrow> int" where
  "find_from sub [] i = (if sub = [] then int i else - 1)"
| "find_from sub (c # cs) i = (if prefix sub (c # cs) then int i else find_from sub cs (Suc i))"

definition py_find :: "string \<Rightarrow> string \<Rightarrow> int" where
  "py_find s sub = find_from sub s 0"

definition py_find_at :: "string \<Rightarrow> string \<Rightarrow> nat \<Rightarrow> int" where
  "py_find_at s sub start = (if start > length s then - 1 else find_from sub (drop start s) start)"

text \<open>\<^verbatim>\<open>s.rfind(sub)\<close>: the highest index at which \<^verbatim>\<open>sub\<close> occurs, \<open>-1\<close> when there is none.\<close>

fun rfind_from :: "string \<Rightarrow> string \<Rightarrow> nat \<Rightarrow> int" where
  "rfind_from sub [] i = (if sub = [] then int i else - 1)"
| "rfind_from sub (c # cs) i =
     (let r = rfind_from sub cs (Suc i)
      in if r \<ge> 0 then r else if prefix sub (c # cs) then int i else - 1)"

definition py_rfind :: "string \<Rightarrow> string \<Rightarrow> int" where
  "py_rfind s sub = rfind_from sub s 0"

text \<open>The slice \<^verbatim>\<open>s[a:b]\<close>: a negative bound counts from the end, and both bounds are
  clamped to the string.\<close>

definition py_slice :: "string \<Rightarrow> int \<Rightarrow> int \<Rightarrow> string" where
  "py_slice s a b =
     (let n = int (length s);
          lo = (if a < 0 then max 0 (n + a) else min a n);
          hi = (if b < 0 then max 0 (n + b) else min b n)
      in take (nat (hi - lo)) (drop (nat lo) s))"

text \<open>The ASCII characters for which \<^verbatim>\<open>str.isspace\<close> holds; the class \<^verbatim>\<open>\s\<close> of \<^verbatim>\<open>re\<close> is
  the same.\<close>

definition is_space :: "char \<Rightarrow> bool" where
  "is_space c = (c \<in> set [CHR 0x09, CHR 0x0A, CHR 0x0B, CHR 0x0C, CHR 0x0D,
                            CHR 0x1C, CHR 0x1D, CHR 0x1E, CHR 0x1F, CHR 0x20])"

definition py_strip :: "string \<Rightarrow> string" where
  "py_strip s = rev (dropWhile is_space (rev (dropWhile is_space s)))"

definition lower_char :: "char \<Rightarrow> char" where
  "lower_char c =
     (case map_of (zip ''ABCDEFGHIJKLMNOPQRSTUVWXYZ'' ''abcdefghijklmnopqrstuvwxyz'') c of
        Some l \<Rightarrow> l | None \<Rightarrow> c)"

definition upper_char :: "char \<Rightarrow> char" where
  "upper_char c =
     (case map_of (zip ''abcdefghijklmnopqrstuvwxyz'' ''ABCDEFGHIJKLMNOPQRSTUVWXYZ'') c of
        Some u \<Rightarrow> u | None \<Rightarrow> c)"

definition py_lower :: "string \<Rightarrow> string" where
  "py_lower s = map lower_char s"

definition py_upper :: "string \<Rightarrow> string" where
  "py_upper s = map upper_char s"

definition is_digit :: "char \<Rightarrow> bool" where
  "is_digit c = (c \<in> set ''0123456789'')"

text \<open>\<^verbatim>\<open>float(s)\<close> on a string of the form \<^verbatim>\<open>\d+(\.\d+)?\<close>, the only strings the parser
  passes to it: the decimal number the string denotes.\<close>

definition digit_val :: "char \<Rightarrow> nat" where
  "digit_val c = (case map_of (zip ''0123456789'' [0, 1, 2, 3, 4, 5, 6, 7, 8, 9]) c of
                    Some d \<Rightarrow> d | None \<Rightarrow> 0)"

definition digits_val :: "string \<Rightarrow> nat" where
  "digits_val ds = foldl (\<lambda>acc c. 10 * acc + digit_val c) 0 ds"

definition py_float :: "string \<Rightarrow> rat" where
  "py_float s =
     (let ip = takeWhile is_digit s; fp = drop (Suc (length ip)) s
      in of_nat (digits_val ip) + of_nat (digits_val fp) / 10 ^ length fp)"

section \<open>The two patterns of \<^verbatim>\<open>parse_text_review\<close> and \<^verbatim>\<open>re.findall\<close>\<close>

text \<open>
  The fragment of \<^verbatim>\<open>re\<close> patterns that the parser uses, under the flag
  \<^verbatim>\<open>re.IGNORECASE\<close>: a literal (compared ignoring case), a greedy \<^verbatim>\<open>+\<close> and a lazy
  \<^verbatim>\<open>*?\<close> over a character class, a greedy optional group, alternation, concatenation,
  a lookahead and \<^verbatim>\<open>$\<close>.
\<close>

datatype rx = Lit string | Plus "char \<Rightarrow> bool" | LazyStar "char \<Rightarrow> bool" | Opt rx
  | Alt rx rx | Seq rx rx | Ahead rx | Eos

text \<open>
  \<open>rx_ends r s\<close> lists what is left of \<open>s\<close> after each way \<open>r\<close> can match at its start, in
  the order in which the backtracking matcher tries them: longest first for a greedy
  repetition, shortest first for a lazy one, the left alternative before the right.
  \<^verbatim>\<open>$\<close> holds at the end of the text and before a newline that ends it.
\<close>

fun rx_ends :: "rx \<Rightarrow> string \<Rightarrow> string list" where
  "rx_ends (Lit l) s =
     (if length l \<le> length s \<and> py_lower (take (length l) s) = py_lower l
      then [drop (length l) s] else [])"
| "rx_ends (Plus P) s = map (\<lambda>k. drop k s) (rev [1..<Suc (length (takeWhile P s))])"
| "rx_ends (LazyStar P) s = map (\<lambda>k. drop k s) [0..<Suc (length (takeWhile P s))]"
| "rx_ends (Opt r) s = rx_ends r s @ [s]"
| "rx_ends (Alt a b) s = rx_ends a s @ rx_ends b s"
| "rx_ends (Seq a b) s = concat (map (rx_ends b) (rx_ends a s))"
| "rx_ends (Ahead r) s = (if rx_ends r s = [] then [] else [s])"
| "rx_ends Eos s = (if s = [] \<or> s = [CHR 0x0A] then [s] else [])"

text \<open>
  \<^verbatim>\<open>re.findall\<close>: scan the text from left to right; at each position try the pattern;
  on a match record its groups and resume after the match. \<open>m\<close> is the pattern's match
  at the start of a text: the groups and the rest of the text after the match. Both
  patterns of the parser consume at least four characters, so no match is empty.
\<close>

fun findall :: "(string \<Rightarrow> ('a \<times> string) option) \<Rightarrow> nat \<Rightarrow> string \<Rightarrow> 'a list" where
  "findall m skip [] = (case m [] of Some (x, rest) \<Rightarrow> [x] | None \<Rightarrow> [])"
| "findall m (Suc k) (c # cs) = findall m k cs"
| "findall m 0 (c # cs) =
     (case m (c # cs) of
        None \<Rightarrow> findall m 0 cs
      | Some (x, rest) \<Rightarrow> x # findall m (length cs - length rest) cs)"

text \<open>\<^verbatim>\<open>score[:\s]+(\d+(?:\.\d+)?)/10\<close>: the text of group 1 and the rest after the
  first successful way to match.\<close>

definition sep_char :: "char \<Rightarrow> bool" where
  "sep_char c = (c = CHR '':'' \<or> is_space c)"

definition number_rx :: rx where
  "number_rx = Seq (Plus is_digit) (Opt (Seq (Lit ''.'') (Plus is_digit)))"

definition score_match :: "string \<Rightarrow> (string \<times> string) option" where
  "score_match s =
     (case [(take (length a - length b) a, c).
              a \<leftarrow> rx_ends (Seq (Lit ''score'') (Plus sep_char)) s,
              b \<leftarrow> rx_ends number_rx a,
              c \<leftarrow> rx_ends (Lit ''/10'') b] of
        [] \<Rightarrow> None
      | x # _ \<Rightarrow> Some x)"

text \<open>\<^verbatim>\<open>(CRITICAL|HIGH|MEDIUM|LOW)[:\s]+(.*?)(?=\n|$)\<close>: the texts of groups 1 and 2 and
  the rest after the first successful way to match. The dot matches every character
  but the newline.\<close>

definition severity_rx :: rx where
  "severity_rx = Alt (Lit ''CRITICAL'') (Alt (Lit ''HIGH'') (Alt (Lit ''MEDIUM'') (Lit ''LOW'')))"

definition severity_match :: "string \<Rightarrow> ((string \<times> string) \<times> string) option" where
  "severity_match s =
     (case [((take (length s - length a) s, take (length b - length c) b), d).
              a \<leftarrow> rx_ends severity_rx s,
              b \<leftarrow> rx_ends (Plus sep_char) a,
              c \<leftarrow> rx_ends (LazyStar (\<lambda>ch. ch \<noteq> CHR 0x0A)) b,
              d \<leftarrow> rx_ends (Ahead (Alt (Lit [CHR 0x0A]) Eos)) c] of
        [] \<Rightarrow> None
      | x # _ \<Rightarrow> Some x)"


section \<open>The heuristic fallback: \<^verbatim>\<open>parse_text_review\<close> (iterative\_code\_improvement.py)\<close>

definition text_scores :: "string \<Rightarrow> string list" where
  "text_scores text = findall score_match 0 text"

definition text_issues :: "string \<Rightarrow> jval list" where
  "text_issues text =
     map (\<lambda>(severity, description).
            JObj [(''severity'', JStr (py_upper severity)),
                  (''description'', JStr (py_strip description))])
       (findall severity_match 0 text)"

definition parse_text_review :: "string \<Rightarrow> (string \<times> jval) list" where
  "parse_text_review text =
     (let scores = text_scores text;
          avg_score = (if scores \<noteq> []
                       then sum_list (map py_float scores) / of_nat (length scores)
                       else 5);
          issues = text_issues text
      in [(''overall_score'', JFloat avg_score),
          (''critical_issues'', JArr (take 5 issues)),
          (''summary'', JStr ''Parsed from text output'')])"

section \<open>\<^verbatim>\<open>str\<close> and \<^verbatim>\<open>repr\<close> of decoded values\<close>

text \<open>\<^verbatim>\<open>repr\<close> of a string: single quotes, unless the string holds a single quote and no
  double quote; the quote and the backslash escaped, tab, newline and return by their
  letters, every other control character as \<^verbatim>\<open>\xhh\<close>.\<close>

definition hex_digit :: "nat \<Rightarrow> char" where
  "hex_digit n = ''0123456789abcdef'' ! (n mod 16)"

definition quote_of :: "string \<Rightarrow> char" where
  "quote_of s = (if CHR 0x27 \<in> set s \<and> CHR 0x22 \<notin> set s then CHR 0x22 else CHR 0x27)"

definition escape_char :: "char \<Rightarrow> char \<Rightarrow> string" where
  "escape_char q c =
     (if c = q \<or> c = CHR 0x5C then [CHR 0x5C, c]
      else if c = CHR 0x09 then [CHR 0x5C, CHR ''t'']
      else if c = CHR 0x0A then [CHR 0x5C, CHR ''n'']
      else if c = CHR 0x0D then [CHR 0x5C, CHR ''r'']
      else if (of_char c :: nat) < 32 \<or> (of_char c :: nat) = 127
        then [CHR 0x5C, CHR ''x'', hex_digit (of_char c div 16), hex_digit (of_char c)]
      else [c])"

definition py_repr_str :: "string \<Rightarrow> string" where
  "py_repr_str s = (let q = quote_of s in [q] @ concat (map (escape_char q) s) @ [q])"

text \<open>\<^verbatim>\<open>repr\<close> of an integer: its decimal digits.\<close>

fun dec_nat :: "nat \<Rightarrow> string" where
  "dec_nat n = (if n < 10 then [hex_digit n] else dec_nat (n div 10) @ [hex_digit (n mod 10)])"

definition py_repr_int :: "int \<Rightarrow> string" where
  "py_repr_int i = (if i < 0 then ''-'' @ dec_nat (nat (- i)) else dec_nat (nat i))"

fun py_join :: "string \<Rightarrow> string list \<Rightarrow> string" where
  "py_join sep [] = []"
| "py_join sep [x] = x"
| "py_join sep (x # y # ys) = x @ sep @ py_join sep (y # ys)"

text \<open>\<^verbatim>\<open>repr\<close> of a value. The digits Python prints for a float are not modelled: the
  function \<open>fr\<close> that renders a float is a parameter, and no result below depends on
  it.\<close>

fun py_repr :: "(rat \<Rightarrow> string) \<Rightarrow> jval \<Rightarrow> string" where
  "py_repr fr JNull = ''None''"
| "py_repr fr (JBool b) = (if b then ''True'' else ''False'')"
| "py_repr fr (JInt i) = py_repr_int i"
| "py_repr fr (JFloat r) = fr r"
| "py_repr fr (JStr s) = py_repr_str s"
| "py_repr fr (JArr xs) = ''['' @ py_join '', '' (map (py_repr fr) xs) @ '']''"
| "py_repr fr (JObj d) =
     ''{'' @ py_join '', '' (map (\<lambda>(k, v). py_repr_str k @ '': '' @ py_repr fr v) d) @ ''}''"

text \<open>\<^verbatim>\<open>str(x)\<close>: a string is itself, every other value its \<^verbatim>\<open>repr\<close>.\<close>

definition py_str :: "(rat \<Rightarrow> string) \<Rightarrow> jval \<Rightarrow> string" where
  "py_str fr x = (case x of JStr s \<Rightarrow> s | _ \<Rightarrow> py_repr fr x)"

section \<open>Review results\<close>

text \<open>
  The dict a review function returns: its \<^verbatim>\<open>status\<close> and, for the statuses
  \<^verbatim>\<open>success\<close> and \<^verbatim>\<open>partial\<close>, its \<^verbatim>\<open>data\<close>; a failure carries the reason the function
  gives for it, if it gives one. The keys \<^verbatim>\<open>tool\<close> and \<^verbatim>\<open>raw_output\<close> are never read
  and are left out.
\<close>

datatype failure = RequiresPlus | Timeout | OtherError | NoDetail

datatype review_result =
    Success "(string \<times> jval) list"
  | Partial "(string \<times> jval) list"
  | Failed failure
  | Skipped

fun status_of :: "review_result \<Rightarrow> string" where
  "status_of (Success d) = ''success''"
| "status_of (Partial d) = ''partial''"
| "status_of (Failed e) = ''failed''"
| "status_of Skipped = ''skipped''"

fun data_of :: "review_result \<Rightarrow> (string \<times> jval) list" where
  "data_of (Success d) = d"
| "data_of (Partial d) = d"
| "data_of _ = []"

section \<open>Keyword matching and the consensus report: \<^verbatim>\<open>generate_consensus_report\<close>
  (iterative\_code\_improvement.py)\<close>

definition common_keywords :: "string list" where
  "common_keywords = [''device'', ''gpu'', ''cuda'', ''hard-coded'', ''hardcoded'',
                      ''eval'', ''train'', ''mode'', ''dropout'', ''error handling'',
                      ''exception'', ''validation'']"

text \<open>One entry of \<^verbatim>\<open>consensus_issues\<close> (lines 361--366).\<close>

record keyword_issue =
  keyword :: string
  gemini_finding :: jval
  codex_finding :: jval
  priority :: string

text \<open>The loop over the keywords (lines 359--367): the first keyword that occurs in both
  texts, where the loop appends and breaks.\<close>

fun keyword_loop :: "string \<Rightarrow> string \<Rightarrow> string list \<Rightarrow> string option" where
  "keyword_loop g_desc c_desc [] = None"
| "keyword_loop g_desc c_desc (kw # rest) =
     (if py_in kw g_desc \<and> py_in kw c_desc then Some kw
      else keyword_loop g_desc c_desc rest)"

text \<open>The loop over \<^verbatim>\<open>codex_issues\<close> for one Gemini issue (lines 353--367).\<close>

fun codex_findings_loop :: "(rat \<Rightarrow> string) \<Rightarrow> jval \<Rightarrow> jval list \<Rightarrow> keyword_issue list
    \<Rightarrow> keyword_issue list" where
  "codex_findings_loop fr g_issue [] consensus_issues = consensus_issues"
| "codex_findings_loop fr g_issue (c_issue # rest) consensus_issues =
     (let g_desc = py_lower (py_str fr g_issue);
          c_desc = py_lower (py_str fr c_issue)
      in codex_findings_loop fr g_issue rest
           (case keyword_loop g_desc c_desc common_keywords of
              None \<Rightarrow> consensus_issues
            | Some kw \<Rightarrow>
                consensus_issues @ [\<lparr>keyword = kw, gemini_finding = g_issue,
                                      codex_finding = c_issue, priority = ''HIGH''\<rparr>]))"

text \<open>The loop over \<^verbatim>\<open>gemini_issues\<close> (lines 351--367).\<close>

fun gemini_findings_loop :: "(rat \<Rightarrow> string) \<Rightarrow> jval list \<Rightarrow> jval list \<Rightarrow> keyword_issue list
    \<Rightarrow> keyword_issue list" where
  "gemini_findings_loop fr [] codex_issues consensus_issues = consensus_issues"
| "gemini_findings_loop fr (g_issue # rest) codex_issues consensus_issues =
     gemini_findings_loop fr rest codex_issues
       (codex_findings_loop fr g_issue codex_issues consensus_issues)"

text \<open>\<^verbatim>\<open>sum(scores)\<close>: the additions start from 0 and raise \<^verbatim>\<open>TypeError\<close> at the first
  element that is not a number.\<close>

fun py_sum_from :: "rat \<Rightarrow> jval list \<Rightarrow> py_error + rat" where
  "py_sum_from acc [] = Inr acc"
| "py_sum_from acc (x # xs) =
     (case py_num x of None \<Rightarrow> Inl TypeError | Some v \<Rightarrow> py_sum_from (acc + v) xs)"

definition py_sum :: "jval list \<Rightarrow> py_error + rat" where
  "py_sum xs = py_sum_from 0 xs"

text \<open>The report (lines 310--318); the time stamp is left out.\<close>

record consensus =
  iteration :: int
  gemini_status :: string
  codex_status :: string
  scores :: "(string \<times> jval) list"
  consensus_issues :: "keyword_issue list"
  average_score :: rat

text \<open>The scores collected at lines 321--332: one per result whose status is
  \<^verbatim>\<open>success\<close> or \<^verbatim>\<open>partial\<close>, 0 when its data has no \<^verbatim>\<open>overall_score\<close>.\<close>

definition usable :: "review_result \<Rightarrow> bool" where
  "usable r = (status_of r \<in> set [''success'', ''partial''])"

definition result_score :: "string \<Rightarrow> review_result \<Rightarrow> (string \<times> jval) list" where
  "result_score tool r =
     (if usable r then [(tool, dict_get (data_of r) ''overall_score'' (JInt 0))] else [])"

definition generate_consensus_report ::
    "(rat \<Rightarrow> string) \<Rightarrow> review_result \<Rightarrow> review_result \<Rightarrow> int \<Rightarrow> py_error + consensus" where
  "generate_consensus_report fr gemini_result codex_result it =
     (let score_dict = result_score ''gemini'' gemini_result @ result_score ''codex'' codex_result;
          scores = map snd score_dict
      in case (if scores \<noteq> []
               then (case py_sum scores of
                       Inl e \<Rightarrow> Inl e
                     | Inr sm \<Rightarrow> Inr (sm / of_nat (length scores)))
               else Inr 0) of
           Inl e \<Rightarrow> Inl e
         | Inr average \<Rightarrow>
             (case (if usable gemini_result \<and> usable codex_result
                    then (case py_iter (dict_get (data_of gemini_result) ''critical_issues'' (JArr [])) of
                            Inl e \<Rightarrow> Inl e
                          | Inr gemini_issues \<Rightarrow>
                              (case py_iter (dict_get (data_of codex_result) ''critical_issues'' (JArr [])) of
                                 Inl e \<Rightarrow> Inl e
                               | Inr codex_issues \<Rightarrow>
                                   Inr (gemini_findings_loop fr gemini_issues codex_issues [])))
                    else Inr []) of
                Inl e \<Rightarrow> Inl e
              | Inr found \<Rightarrow>
                  Inr \<lparr>iteration = it,
                       gemini_status = status_of gemini_result,
                       codex_status = status_of codex_result,
                       scores = score_dict,
                       consensus_issues = found,
                       average_score = average\<rparr>))"

text \<open>What one pair of issues contributes under keyword matching: the entry with the
  first keyword of the vocabulary that occurs in both lower-cased texts, if there is
  one.\<close>

definition pair_entry :: "(rat \<Rightarrow> string) \<Rightarrow> jval \<Rightarrow> jval \<Rightarrow> keyword_issue list" where
  "pair_entry fr g_issue c_issue =
     (case find (\<lambda>kw. py_in kw (py_lower (py_str fr g_issue))
                     \<and> py_in kw (py_lower (py_str fr c_issue))) common_keywords of
        None \<Rightarrow> []
      | Some kw \<Rightarrow> [\<lparr>keyword = kw, gemini_finding = g_issue, codex_finding = c_issue,
                      priority = ''HIGH''\<rparr>])"




section \<open>Extracting the payload: \<^verbatim>\<open>run_gemini_review\<close> and \<^verbatim>\<open>run_codex_review\<close>\<close>

text \<open>
  What \<^verbatim>\<open>subprocess.run\<close> gives: a completed process with its return code, standard
  output and standard error, or one of the two exceptions the callers distinguish.
\<close>

datatype proc = Completed int string string | TimeoutExpired | ProcessError

text \<open>The fenced branch, the same in all four functions: the text between the first
  \<^verbatim>\<open>```json\<close> and the next \<^verbatim>\<open>```\<close>, stripped. When no closing fence follows,
  \<^verbatim>\<open>find\<close> gives \<open>-1\<close> and the slice ends before the last character.\<close>

definition fenced_json :: "string \<Rightarrow> string" where
  "fenced_json output =
     (let json_start = py_find output ''```json'' + 7;
          json_end = py_find_at output ''```'' (nat json_start)
      in py_strip (py_slice output json_start json_end))"

text \<open>Lines 138--147 of iterative\_code\_improvement.py (Gemini): from the first opening
  brace to the last closing brace.\<close>

definition gemini_json_str :: "string \<Rightarrow> string" where
  "gemini_json_str output =
     (if py_in ''```json'' output then fenced_json output
      else if py_in ''{'' output
        then (let json_start = py_find output ''{'';
                  json_end = py_rfind output ''}'' + 1
              in py_slice output json_start json_end)
      else output)"

text \<open>Lines 237--247 of iterative\_code\_improvement.py (Codex): from the last opening
  brace to the last closing brace.\<close>

definition codex_json_str :: "string \<Rightarrow> string" where
  "codex_json_str output =
     (if py_in ''```json'' output then fenced_json output
      else if py_in ''{'' output
        then (let json_start = py_rfind output ''{'';
                  json_end = py_rfind output ''}'' + 1
              in py_slice output json_start json_end)
      else output)"

text \<open>
  The step after the extraction, the same in both functions (lines 149--167 and
  249--267). \<^verbatim>\<open>json.loads\<close> is a parameter \<open>loads\<close>: \<open>None\<close> stands for
  \<^verbatim>\<open>JSONDecodeError\<close>. A decoded value that is not a dict has no method \<^verbatim>\<open>get\<close>: the
  \<^verbatim>\<open>AttributeError\<close> is caught by the outer handler. Writing the raw output to its
  file is not modelled.
\<close>

definition decode_review :: "(string \<Rightarrow> jval option) \<Rightarrow> string \<Rightarrow> string \<Rightarrow> review_result" where
  "decode_review loads json_str output =
     (case loads json_str of
        None \<Rightarrow> Partial (parse_text_review output)
      | Some (JObj review_data) \<Rightarrow> Success review_data
      | Some _ \<Rightarrow> Failed OtherError)"

definition run_gemini_review :: "(string \<Rightarrow> jval option) \<Rightarrow> proc \<Rightarrow> review_result" where
  "run_gemini_review loads p =
     (case p of
        Completed returncode stdout stderr \<Rightarrow>
          (if returncode = 0 then decode_review loads (gemini_json_str stdout) stdout
           else Failed OtherError)
      | TimeoutExpired \<Rightarrow> Failed Timeout
      | ProcessError \<Rightarrow> Failed OtherError)"

definition run_codex_review :: "(string \<Rightarrow> jval option) \<Rightarrow> proc \<Rightarrow> review_result" where
  "run_codex_review loads p =
     (case p of
        Completed returncode stdout stderr \<Rightarrow>
          (let output = stdout @ stderr
           in if py_in ''upgrade to Plus'' output then Failed RequiresPlus
              else decode_review loads (codex_json_str output) output)
      | TimeoutExpired \<Rightarrow> Failed Timeout
      | ProcessError \<Rightarrow> Failed OtherError)"

text \<open>
  The review functions of quick\_cross\_review\_and\_fix.py. Every exception is caught and
  gives the status \<^verbatim>\<open>failed\<close>: a decoding error, a decoded value without \<^verbatim>\<open>get\<close>, and
  \<^verbatim>\<open>top_issues\<close> without a length.
\<close>

definition quick_decode :: "(string \<Rightarrow> jval option) \<Rightarrow> string \<Rightarrow> review_result" where
  "quick_decode loads json_str =
     (case loads json_str of
        Some (JObj d) \<Rightarrow>
          (case py_iter (dict_get d ''top_issues'' (JArr [])) of
             Inl e \<Rightarrow> Failed NoDetail
           | Inr top_issues \<Rightarrow> Success d)
      | _ \<Rightarrow> Failed NoDetail)"

definition quick_run_gemini_review :: "(string \<Rightarrow> jval option) \<Rightarrow> proc \<Rightarrow> review_result" where
  "quick_run_gemini_review loads p =
     (case p of
        Completed returncode stdout stderr \<Rightarrow>
          (if returncode = 0
           then quick_decode loads
                  (if py_in ''```json'' stdout then fenced_json stdout
                   else py_slice stdout (py_find stdout ''{'') (py_rfind stdout ''}'' + 1))
           else Failed NoDetail)
      | _ \<Rightarrow> Failed NoDetail)"

definition quick_run_codex_review :: "(string \<Rightarrow> jval option) \<Rightarrow> proc \<Rightarrow> review_result" where
  "quick_run_codex_review loads p =
     (case p of
        Completed returncode stdout stderr \<Rightarrow>
          (let output = stdout @ stderr
           in if py_in ''upgrade to Plus'' output then Skipped
              else if py_in ''```json'' output then quick_decode loads (fenced_json output)
              else (let json_start = py_rfind output ''{'';
                        json_end = py_rfind output ''}'' + 1
                    in if json_start \<ge> 0 \<and> json_end > json_start
                       then quick_decode loads (py_slice output json_start json_end)
                       else Failed NoDetail))
      | _ \<Rightarrow> Failed NoDetail)"

section \<open>The iteration loop of iterative\_code\_improvement.py: \<^verbatim>\<open>run_iteration\<close> and \<^verbatim>\<open>run\<close>\<close>

text \<open>
  The reviewers and the repair tool are outside the program. \<open>reviews it\<close> is what the two
  review functions return when they are called in iteration \<open>it\<close>. A run is described by
  its history, one record per iteration that reached line 488, and by the way it ends.
  \<open>repairs\<close> lists the consensus issues for which \<^verbatim>\<open>apply_improvements\<close> invokes the
  repair tool (line 443): every issue of the report, and none when the report has no
  issue (line 415).
\<close>

text \<open>The result of a tool in one iteration: that of its review function when the tool
  is available, the preset \<^verbatim>\<open>skipped\<close> result otherwise (lines 475--482, and lines
  322--323 of quick\_cross\_review\_and\_fix.py).\<close>

definition tool_result :: "bool \<Rightarrow> review_result \<Rightarrow> review_result" where
  "tool_result available r = (if available then r else Skipped)"





section \<open>The iteration loop of quick\_cross\_review\_and\_fix.py: \<^verbatim>\<open>main\<close>\<close>







section \<open>Aggregation: \<^verbatim>\<open>_aggregate_reviews\<close> (workflows/code\_review\_workflow\_gemini.py)\<close>





text \<open>The summary; the directory, the time stamp, the model name and the rounded average
  are left out (the sum behind the average is kept: it raises on a score that is not a
  number).\<close>

record summary =
  total_files :: nat
  reviewed_successfully :: nat
  review_failed :: nat
  total_issues :: nat
  critical_issues :: nat
  high_issues :: nat
  medium_issues :: nat
  low_issues :: nat




section \<open>Example inputs\<close>

text \<open>
  A reply that follows the format the prompts ask for, with one issue, after a sentence
  of narrative. No fence surrounds it.
\<close>

definition example_payload :: string where
  \<open>example_payload =
     ''{"overall_score": 7.2, "critical_issues": [{"file": "a.py", "line": 10, "issue": "x", "severity": "HIGH"}]}''\<close>

definition example_output :: string where
  "example_output = ''Review complete. '' @ example_payload"

text \<open>The text from the last opening brace of that reply to its last closing brace:
  the issue's dict followed by the two closing brackets of the enclosing list and dict.\<close>

definition example_tail :: string where
  \<open>example_tail = ''{"file": "a.py", "line": 10, "issue": "x", "severity": "HIGH"}]}''\<close>

text \<open>
  \<^verbatim>\<open>json.loads\<close> on the two texts above: the payload decodes to its dict; the tail is not
  a JSON document (data follows its first value) and raises \<^verbatim>\<open>JSONDecodeError\<close>. On other
  texts this decoder is not meant to agree with \<^verbatim>\<open>json.loads\<close>.
\<close>

definition example_loads :: "string \<Rightarrow> jval option" where
  "example_loads s =
     (if s = example_payload
      then Some (JObj [(''overall_score'', JFloat (36 / 5)),
                       (''critical_issues'',
                          JArr [JObj [(''file'', JStr ''a.py''), (''line'', JInt 10),
                                      (''issue'', JStr ''x''), (''severity'', JStr ''HIGH'')]])])
      else None)"



section \<open>Properties of the locality matcher\<close>










text \<open>
  C3. Two issues that both carry a file string and an integer line pass the locality
  test exactly when the file strings are identical and the line numbers differ by at
  most 5: with one such issue on each side, \<^verbatim>\<open>find_consensus_issues\<close> returns the one
  entry pairing them in that case and the empty list otherwise. Line deltas of 5 match,
  deltas of 6 do not, and different files never match.
\<close>

theorem locality_match_iff:
  assumes "map_of gemini_data ''top_issues'' = Some (JArr [JObj g])"
    and "map_of codex_data ''top_issues'' = Some (JArr [JObj c])"
    and "map_of g ''file'' = Some (JStr g_file)" and "map_of g ''line'' = Some (JInt g_line)"
    and "map_of c ''file'' = Some (JStr c_file)" and "map_of c ''line'' = Some (JInt c_line)"
  shows "codex_test (JStr g_file) (JInt g_line) (JObj c)
           = Inr (g_file = c_file \<and> \<bar>g_line - c_line\<bar> \<le> 5)
       \<and> find_consensus_issues gemini_data codex_data
           = Inr (if g_file = c_file \<and> \<bar>g_line - c_line\<bar> \<le> 5
                  then [\<lparr>ci_file = JStr g_file, ci_line = JInt g_line,
                         ci_severity = dict_get g ''severity'' (JStr ''''),
                         gemini_issue = JObj g, codex_issue = JObj c\<rparr>]
                  else [])"
proof -
  have "\<bar>(of_int g_line :: rat) - of_int c_line\<bar> = of_int \<bar>g_line - c_line\<bar>" by simp
  then have le: "(\<bar>(of_int g_line :: rat) - of_int c_line\<bar> \<le> 5) = (\<bar>g_line - c_line\<bar> \<le> 5)"
    by (metis of_int_le_iff of_int_numeral)
  have t: "codex_test (JStr g_file) (JInt g_line) (JObj c)
           = Inr (g_file = c_file \<and> \<bar>g_line - c_line\<bar> \<le> 5)"
    using assms(5,6) le
    by (simp add: codex_test_def py_get_def dict_get_def same_problem_def py_abs_diff_def)
  show ?thesis
  proof (cases "g_file = c_file \<and> \<bar>g_line - c_line\<bar> \<le> 5")
    case True
    with assms t show ?thesis
      by (simp add: find_consensus_issues_def dict_get_def gemini_fields_def)
  next
    case False
    with assms t show ?thesis
      by (simp add: find_consensus_issues_def dict_get_def gemini_fields_def)
  qed
qed

theorem locality_match_iff_witness:
  "find_consensus_issues
      [(''top_issues'', JArr [JObj [(''file'', JStr ''x.py''), (''line'', JInt 10)]])]
      [(''top_issues'', JArr [JObj [(''file'', JStr ''x.py''), (''line'', JInt 15)]])]
    = Inr [\<lparr>ci_file = JStr ''x.py'', ci_line = JInt 10, ci_severity = JStr '''',
            gemini_issue = JObj [(''file'', JStr ''x.py''), (''line'', JInt 10)],
            codex_issue = JObj [(''file'', JStr ''x.py''), (''line'', JInt 15)]\<rparr>]
   \<and> find_consensus_issues
      [(''top_issues'', JArr [JObj [(''file'', JStr ''x.py''), (''line'', JInt 10)]])]
      [(''top_issues'', JArr [JObj [(''file'', JStr ''x.py''), (''line'', JInt 16)]])]
    = Inr []
   \<and> find_consensus_issues
      [(''top_issues'', JArr [JObj [(''file'', JStr ''x.py''), (''line'', JInt 10)]])]
      [(''top_issues'', JArr [JObj [(''file'', JStr ''y.py''), (''line'', JInt 10)]])]
    = Inr []"
  using locality_match_iff[of
      "[(''top_issues'', JArr [JObj [(''file'', JStr ''x.py''), (''line'', JInt 10)]])]"
      "[(''file'', JStr ''x.py''), (''line'', JInt 10)]"
      "[(''top_issues'', JArr [JObj [(''file'', JStr ''x.py''), (''line'', JInt 15)]])]"
      "[(''file'', JStr ''x.py''), (''line'', JInt 15)]" "''x.py''" 10 "''x.py''" 15]
    locality_match_iff[of
      "[(''top_issues'', JArr [JObj [(''file'', JStr ''x.py''), (''line'', JInt 10)]])]"
      "[(''file'', JStr ''x.py''), (''line'', JInt 10)]"
      "[(''top_issues'', JArr [JObj [(''file'', JStr ''x.py''), (''line'', JInt 16)]])]"
      "[(''file'', JStr ''x.py''), (''line'', JInt 16)]" "''x.py''" 10 "''x.py''" 16]
    locality_match_iff[of
      "[(''top_issues'', JArr [JObj [(''file'', JStr ''x.py''), (''line'', JInt 10)]])]"
      "[(''file'', JStr ''x.py''), (''line'', JInt 10)]"
      "[(''top_issues'', JArr [JObj [(''file'', JStr ''y.py''), (''line'', JInt 10)]])]"
      "[(''file'', JStr ''y.py''), (''line'', JInt 10)]" "''x.py''" 10 "''y.py''" 10]
  by (simp add: dict_get_def)




section \<open>Properties of the patterns and of the fallback parser\<close>




lemma rx_ends_suffix: "a \<in> set (rx_ends r s) \<Longrightarrow> suffix a s"
proof (induction r arbitrary: s a)
  case (Seq r1 r2)
  then obtain b where "b \<in> set (rx_ends r1 s)" "a \<in> set (rx_ends r2 b)" by auto
  with Seq.IH show ?case using suffix_order.trans by blast
qed (auto simp: suffix_drop split: if_splits)

















lemma py_float_nonneg: "0 \<le> py_float s"
  by (simp add: py_float_def Let_def)

lemma mean_nonneg:
  fixes xs :: "rat list"
  shows "\<forall>x \<in> set xs. 0 \<le> x \<Longrightarrow> 0 \<le> sum_list xs / of_nat (length xs)"
  by (simp add: sum_list_nonneg)

lemma sum_list_le_const:
  fixes xs :: "rat list"
  shows "\<forall>x \<in> set xs. x \<le> c \<Longrightarrow> sum_list xs \<le> of_nat (length xs) * c"
  by (induction xs) (auto simp: algebra_simps)

lemma mean_le:
  fixes xs :: "rat list"
  assumes "\<forall>x \<in> set xs. x \<le> c" and "xs \<noteq> []"
  shows "sum_list xs / of_nat (length xs) \<le> c"
proof -
  have "0 < (of_nat (length xs) :: rat)" using assms(2) by simp
  then show ?thesis using sum_list_le_const[OF assms(1)]
    by (simp add: pos_divide_le_eq mult.commute)
qed

text \<open>
  C5, as the code has it. \<^verbatim>\<open>parse_text_review\<close> is total: no operation in it can raise
  (\<^verbatim>\<open>float\<close> is applied to captured digit strings only, and the division is guarded by
  the test for matches), so every text yields a result with the three keys. Its
  \<^verbatim>\<open>overall_score\<close> is never negative and is 5 when no score pattern matches; it is at
  most 10 when every captured number is at most 10. Nothing clamps a captured number.
\<close>

theorem parse_text_review_score_range:
  "\<exists>avg issues.
      parse_text_review text =
        [(''overall_score'', JFloat avg), (''critical_issues'', JArr issues),
         (''summary'', JStr ''Parsed from text output'')]
    \<and> 0 \<le> avg
    \<and> (text_scores text = [] \<longrightarrow> avg = 5)
    \<and> ((\<forall>s \<in> set (text_scores text). py_float s \<le> 10) \<longrightarrow> avg \<le> 10)"
proof (cases "text_scores text = []")
  case True
  then show ?thesis by (simp add: parse_text_review_def Let_def)
next
  case False
  let ?xs = "map py_float (text_scores text)"
  have nn: "0 \<le> sum_list ?xs / of_nat (length ?xs)"
    by (rule mean_nonneg) (simp add: py_float_nonneg)
  have le: "sum_list ?xs / of_nat (length ?xs) \<le> 10"
    if "\<forall>s \<in> set (text_scores text). py_float s \<le> 10"
    using that False by (intro mean_le) auto
  from False nn le show ?thesis by (simp add: parse_text_review_def Let_def)
qed

theorem parse_text_review_score_range_witness:
  "parse_text_review ''Score: 7.5/10'' =
     [(''overall_score'', JFloat (15 / 2)), (''critical_issues'', JArr []),
      (''summary'', JStr ''Parsed from text output'')]
   \<and> (0::rat) \<le> 15 / 2 \<and> (15 / 2 :: rat) \<le> 10"
proof -
  have s: "text_scores ''Score: 7.5/10'' = [''7.5'']" by code_simp
  have f: "py_float ''7.5'' = 15 / 2" by code_simp
  have p: "parse_text_review ''Score: 7.5/10'' =
     [(''overall_score'', JFloat (15 / 2)), (''critical_issues'', JArr []),
      (''summary'', JStr ''Parsed from text output'')]" by code_simp
  from parse_text_review_score_range[of "''Score: 7.5/10''"] s f p
  show ?thesis by auto
qed

text \<open>
  The claim C5 as stated fails in its range: the pattern accepts any number before
  \<^verbatim>\<open>/10\<close>, and the text \<^verbatim>\<open>score: 50/10\<close> is given the overall score 50.
\<close>

theorem parse_text_review_score_above_ten:
  "parse_text_review ''score: 50/10'' =
     [(''overall_score'', JFloat 50), (''critical_issues'', JArr []),
      (''summary'', JStr ''Parsed from text output'')]
   \<and> \<not> (50::rat) \<le> 10"
  by code_simp




section \<open>Properties of the keyword matcher, the average and the iteration loops\<close>

lemma py_in_sublist: "py_in sub s \<longleftrightarrow> sublist sub s"
  by (induction s) (auto simp: sublist_Cons_right)

lemma keyword_loop_find:
  "keyword_loop g c kws = find (\<lambda>kw. py_in kw g \<and> py_in kw c) kws"
  by (induction kws) auto

lemma codex_findings_loop_acc:
  "codex_findings_loop fr g cs acc = acc @ concat (map (pair_entry fr g) cs)"
  by (induction cs arbitrary: acc)
    (auto simp: pair_entry_def keyword_loop_find Let_def split: option.splits)

lemma gemini_findings_loop_acc:
  "gemini_findings_loop fr gs cs acc
     = acc @ concat (map (\<lambda>g. concat (map (pair_entry fr g) cs)) gs)"
  by (induction gs arbitrary: acc) (auto simp: codex_findings_loop_acc)














lemma tool_result_not_partial:
  "status_of r \<noteq> ''partial'' \<Longrightarrow> status_of (tool_result a r) \<noteq> ''partial''"
  by (simp add: tool_result_def)




lemma quick_decode_not_partial: "status_of (quick_decode loads s) \<noteq> ''partial''"
  by (auto simp: quick_decode_def split: option.splits jval.splits sum.splits)

lemma quick_reviews_not_partial:
  "status_of (quick_run_gemini_review loads p) \<noteq> ''partial''"
  "status_of (quick_run_codex_review loads p) \<noteq> ''partial''"
  by (auto simp: quick_run_gemini_review_def quick_run_codex_review_def Let_def
      quick_decode_not_partial split: proc.splits)







text \<open>
  C4, as the code has it. The texts compared are not the descriptions but
  \<^verbatim>\<open>str(issue).lower()\<close> of the whole issue: for a dict, its rendering with every key and
  every value, the file name among them. The keyword loops produce, pair by pair in the
  order of the two lists, at most one entry per pair; a pair has an entry if and only if
  some keyword of the vocabulary is a substring of both texts; the entry carries the
  first such keyword in the order of the vocabulary, the two issues and the priority
  \<^verbatim>\<open>HIGH\<close>. The report's consensus issues are that list.
\<close>

theorem keyword_match_consensus:
  "gemini_findings_loop fr gemini_issues codex_issues []
     = concat (map (\<lambda>g. concat (map (pair_entry fr g) codex_issues)) gemini_issues)
 \<and> (\<forall>rep gs cs. generate_consensus_report fr gr cr it = Inr rep \<and> usable gr \<and> usable cr
       \<and> py_iter (dict_get (data_of gr) ''critical_issues'' (JArr [])) = Inr gs
       \<and> py_iter (dict_get (data_of cr) ''critical_issues'' (JArr [])) = Inr cs
     \<longrightarrow> consensus_issues rep = concat (map (\<lambda>g. concat (map (pair_entry fr g) cs)) gs))
 \<and> length (pair_entry fr g c) \<le> 1
 \<and> (pair_entry fr g c \<noteq> [] \<longleftrightarrow>
       (\<exists>kw \<in> set common_keywords. sublist kw (py_lower (py_str fr g))
                                  \<and> sublist kw (py_lower (py_str fr c))))
 \<and> (\<forall>e \<in> set (pair_entry fr g c).
       gemini_finding e = g \<and> codex_finding e = c \<and> priority e = ''HIGH''
     \<and> (\<exists>i < length common_keywords. keyword e = common_keywords ! i
           \<and> sublist (keyword e) (py_lower (py_str fr g))
           \<and> sublist (keyword e) (py_lower (py_str fr c))
           \<and> (\<forall>j < i. \<not> (sublist (common_keywords ! j) (py_lower (py_str fr g))
                         \<and> sublist (common_keywords ! j) (py_lower (py_str fr c))))))"
proof -
  let ?P = "\<lambda>kw. py_in kw (py_lower (py_str fr g)) \<and> py_in kw (py_lower (py_str fr c))"
  have a: "gemini_findings_loop fr gemini_issues codex_issues []
     = concat (map (\<lambda>g. concat (map (pair_entry fr g) codex_issues)) gemini_issues)"
    by (simp add: gemini_findings_loop_acc)
  have b: "consensus_issues rep = concat (map (\<lambda>g. concat (map (pair_entry fr g) cs)) gs)"
    if "generate_consensus_report fr gr cr it = Inr rep" "usable gr" "usable cr"
      "py_iter (dict_get (data_of gr) ''critical_issues'' (JArr [])) = Inr gs"
      "py_iter (dict_get (data_of cr) ''critical_issues'' (JArr [])) = Inr cs" for rep gs cs
    using that
    by (auto simp: generate_consensus_report_def Let_def gemini_findings_loop_acc
        split: sum.splits if_splits)
  have c: "length (pair_entry fr g c) \<le> 1"
    by (simp add: pair_entry_def split: option.splits)
  have d: "pair_entry fr g c \<noteq> [] \<longleftrightarrow>
       (\<exists>kw \<in> set common_keywords. sublist kw (py_lower (py_str fr g))
                                  \<and> sublist kw (py_lower (py_str fr c)))"
  proof -
    have "pair_entry fr g c \<noteq> [] \<longleftrightarrow> find ?P common_keywords \<noteq> None"
      by (simp add: pair_entry_def split: option.splits)
    also have "\<dots> \<longleftrightarrow> (\<exists>kw \<in> set common_keywords. ?P kw)"
      by (auto simp: find_None_iff)
    finally show ?thesis by (simp add: py_in_sublist)
  qed
  have e: "gemini_finding e = g \<and> codex_finding e = c \<and> priority e = ''HIGH''
     \<and> (\<exists>i < length common_keywords. keyword e = common_keywords ! i
           \<and> sublist (keyword e) (py_lower (py_str fr g))
           \<and> sublist (keyword e) (py_lower (py_str fr c))
           \<and> (\<forall>j < i. \<not> (sublist (common_keywords ! j) (py_lower (py_str fr g))
                         \<and> sublist (common_keywords ! j) (py_lower (py_str fr c)))))"
    if "e \<in> set (pair_entry fr g c)" for e
  proof -
    from that obtain kw where f: "find ?P common_keywords = Some kw"
      and e: "e = \<lparr>keyword = kw, gemini_finding = g, codex_finding = c, priority = ''HIGH''\<rparr>"
      by (cases "find ?P common_keywords") (auto simp: pair_entry_def)
    from f obtain i where "i < length common_keywords" "?P (common_keywords ! i)"
      "kw = common_keywords ! i" "\<forall>j < i. \<not> ?P (common_keywords ! j)"
      unfolding find_Some_iff by blast
    with e show ?thesis by (auto simp: py_in_sublist)
  qed
  from a b c d e show ?thesis by blast
qed

theorem keyword_match_consensus_witness:
  "gemini_findings_loop (\<lambda>r. []) [JObj [(''issue'', JStr ''hard-coded device string'')]]
       [JObj [(''issue'', JStr ''GPU device not configurable'')]] []
     = [\<lparr>keyword = ''device'',
          gemini_finding = JObj [(''issue'', JStr ''hard-coded device string'')],
          codex_finding = JObj [(''issue'', JStr ''GPU device not configurable'')],
          priority = ''HIGH''\<rparr>]"
proof -
  have "pair_entry (\<lambda>r. []) (JObj [(''issue'', JStr ''hard-coded device string'')])
          (JObj [(''issue'', JStr ''GPU device not configurable'')])
     = [\<lparr>keyword = ''device'',
          gemini_finding = JObj [(''issue'', JStr ''hard-coded device string'')],
          codex_finding = JObj [(''issue'', JStr ''GPU device not configurable'')],
          priority = ''HIGH''\<rparr>]"
    by code_simp
  with keyword_match_consensus[of "\<lambda>r. []" "[JObj [(''issue'', JStr ''hard-coded device string'')]]"
      "[JObj [(''issue'', JStr ''GPU device not configurable'')]]"]
  show ?thesis by simp
qed

text \<open>
  The claim C4 as stated fails: the descriptions \<^verbatim>\<open>unused import\<close> and
  \<^verbatim>\<open>missing docstring\<close> share no keyword, but both issues name the file \<^verbatim>\<open>model.py\<close>,
  and the keyword \<^verbatim>\<open>mode\<close> is found in the renderings of both.
\<close>

theorem keyword_match_reads_file_name:
  "gemini_findings_loop (\<lambda>r. [])
       [JObj [(''file'', JStr ''model.py''), (''issue'', JStr ''unused import'')]]
       [JObj [(''file'', JStr ''model.py''), (''issue'', JStr ''missing docstring'')]] []
     = [\<lparr>keyword = ''mode'',
          gemini_finding = JObj [(''file'', JStr ''model.py''), (''issue'', JStr ''unused import'')],
          codex_finding = JObj [(''file'', JStr ''model.py''), (''issue'', JStr ''missing docstring'')],
          priority = ''HIGH''\<rparr>]
   \<and> keyword_loop (py_lower ''unused import'') (py_lower ''missing docstring'') common_keywords
     = None"
  by code_simp

section \<open>Properties of the review functions\<close>

text \<open>
  C9, as the code has it. When the combined output of a Codex review holds the marker
  \<^verbatim>\<open>upgrade to Plus\<close>, the review is never a success, whatever the return code, which
  neither function reads: \<^verbatim>\<open>run_codex_review\<close> of the iterative workflow returns the
  status \<^verbatim>\<open>failed\<close> with the reason, and \<^verbatim>\<open>run_codex_review\<close> of the quick workflow
  returns the status \<^verbatim>\<open>skipped\<close>.
\<close>

theorem entitlement_denied_not_success:
  assumes "sublist ''upgrade to Plus'' (stdout @ stderr)"
  shows "run_codex_review loads (Completed returncode stdout stderr) = Failed RequiresPlus
       \<and> quick_run_codex_review loads (Completed returncode stdout stderr) = Skipped
       \<and> \<not> usable (run_codex_review loads (Completed returncode stdout stderr))
       \<and> status_of (quick_run_codex_review loads (Completed returncode stdout stderr)) \<noteq> ''success''"
proof -
  have "py_in sub s \<longleftrightarrow> sublist sub s" for sub s :: string
    by (induction s) (auto simp: sublist_Cons_right)
  with assms have "py_in ''upgrade to Plus'' (stdout @ stderr)" by simp
  then show ?thesis
    by (simp add: run_codex_review_def quick_run_codex_review_def usable_def)
qed

theorem entitlement_denied_not_success_witness:
  "run_codex_review example_loads (Completed 0 ''Please upgrade to Plus to continue.'' '''')
     = Failed RequiresPlus
   \<and> quick_run_codex_review example_loads (Completed 0 ''Please upgrade to Plus to continue.'' '''')
     = Skipped"
proof -
  have "sublist ''upgrade to Plus'' (''Please upgrade to Plus to continue.'' @ '''')"
    by code_simp
  from entitlement_denied_not_success[OF this, of example_loads 0] show ?thesis by simp
qed

text \<open>
  The claim C9 as stated fails in the quick workflow: the status of the denied review is
  \<^verbatim>\<open>skipped\<close>, not \<^verbatim>\<open>failed\<close>.
\<close>

theorem quick_entitlement_denied_is_skipped:
  "status_of (quick_run_codex_review example_loads
      (Completed 0 ''Please upgrade to Plus to continue.'' '''')) = ''skipped''
   \<and> ''skipped'' \<noteq> ''failed''"
  by code_simp

text \<open>
  C6 at a reply in the requested format that follows a sentence of narrative. The Codex
  extraction starts at the last opening brace, which opens the issue's dict inside the
  payload, so the text handed to the decoder is not the payload and does not decode; the
  review falls back to text mining and reports the default score 5 and no issue, where
  the payload says 7.2 and one issue. The Gemini extraction, from the first opening
  brace, recovers the payload from the same reply.
\<close>

theorem codex_last_brace_cuts_payload:
  "codex_json_str example_output = example_tail
   \<and> example_loads example_tail = None
   \<and> run_codex_review example_loads (Completed 0 example_output '''')
       = Partial [(''overall_score'', JFloat 5), (''critical_issues'', JArr []),
                  (''summary'', JStr ''Parsed from text output'')]
   \<and> gemini_json_str example_output = example_payload
   \<and> run_gemini_review example_loads (Completed 0 example_output '''')
       = Success [(''overall_score'', JFloat (36 / 5)),
                  (''critical_issues'',
                     JArr [JObj [(''file'', JStr ''a.py''), (''line'', JInt 10),
                                 (''issue'', JStr ''x''), (''severity'', JStr ''HIGH'')]])]"
  by code_simp

section \<open>Properties of the aggregation\<close>











end
